theory Spec2Isabelle
  imports Complex_Main "HOL-Library.Multiset"
begin

section \<open>The vector similarity store of \<^verbatim>\<open>api/module/sqlitevec.py\<close>\<close>

text \<open>
  The class \<^verbatim>\<open>SQLiteVecDB\<close> is a thin layer over a SQLite file with one
  \<^verbatim>\<open>vec0\<close> virtual table named \<^verbatim>\<open>vectors\<close>. Every method opens a connection,
  runs one or two SQL statements and closes the connection; nothing is cached on the
  instance but its three attributes. The model therefore has
  \<^item> the instance as a record of its attributes (\<open>store\<close>),
  \<^item> the outside world as a record (\<open>world\<close>): the \<^verbatim>\<open>vectors\<close> table of the file
    and the log of the texts handed to the embedding function,
  \<^item> each method as a function from the world to the world after the call and either
    the exception that propagated (\<open>Inl\<close>) or the value returned (\<open>Inr\<close>).

  The code catches no exception, so the first failing call of a method decides its
  outcome and no later statement of the method runs.
\<close>

subsection \<open>Data\<close>

text \<open>
  One row of the table, as the \<^verbatim>\<open>INSERT\<close> of \<^verbatim>\<open>add_one\<close> writes it. Rows are kept
  in the order in which they were inserted.
\<close>

record stored_row =
  embedding :: "real list"
  query :: string
  content :: string
  timestamp :: real

text \<open>
  The virtual table: the dimension declared for its \<^verbatim>\<open>embedding float[D]\<close> column
  when it was created, and its rows.
\<close>

record vec_table =
  dim :: int
  rows :: "stored_row list"

text \<open>
  The world a method runs in. \<open>vectors\<close> is \<open>None\<close> when the file has no table
  \<^verbatim>\<open>vectors\<close> (a missing file and a file without the table are not told apart:
  \<^verbatim>\<open>sqlite3.connect\<close> creates the file). \<open>embed_calls\<close> lists the texts passed to
  the embedding function so far, oldest first: the call is a request to a remote
  provider, so that it happens at all is an effect.
\<close>

record world =
  vectors :: "vec_table option"
  embed_calls :: "string list"

text \<open>
  Exceptions. The module defines no exception class of its own; what propagates is
  the \<^verbatim>\<open>TypeError\<close> of calling \<^verbatim>\<open>self.embed\<close> when it is \<^verbatim>\<open>None\<close>, whatever the
  embedding function raised, or the \<^verbatim>\<open>sqlite3.OperationalError\<close> of a statement the
  storage engine refused.
\<close>

datatype sql_error = NoSuchTable | DimensionMismatch | BadColumnDefinition | BadK

datatype error = TypeError | EmbedRaised string | OperationalError sql_error

text \<open>
  The embedding function: a text to the exception it raises (\<open>Inl\<close>, with its
  message) or the vector it returns.
\<close>

type_synonym embedding_function = "string \<Rightarrow> string + real list"

text \<open>The attributes of an instance of \<^verbatim>\<open>SQLiteVecDB\<close>.\<close>

record store =
  db_filepath :: string
  embed :: "embedding_function option"
  embedding_size :: int

text \<open>
  The rows of the two data frames: \<^verbatim>\<open>get_all\<close> builds one dictionary per row,
  \<^verbatim>\<open>search\<close> returns the tuples of the cursor under the index \<^verbatim>\<open>order\<close>, which
  counts from 1.
\<close>

record exported_row =
  row_embedding :: "real list"
  row_query :: string
  row_content :: string
  row_timestamp :: real

record search_frame =
  order_index :: "nat list"
  data :: "(string \<times> string \<times> real) list"

subsection \<open>The storage engine\<close>

text \<open>
  SQLite and the \<^verbatim>\<open>sqlite-vec\<close> extension are not code of this repository. What the
  SQL text of the module does not fix is a parameter of the model:
  \<^item> \<open>distance\<close>: the metric of the \<^verbatim>\<open>vec0\<close> column, between a stored vector and
    the query vector;
  \<^item> \<open>order_by\<close>: how the engine carries out \<^verbatim>\<open>ORDER BY key ASC\<close> on the rows of
    the table. The statements of the module name one sort key and no second one, so the
    order of rows with equal keys is the engine's;
  \<^item> \<open>float32\<close>: the rounding of one component by \<^verbatim>\<open>serialize_float32\<close>, which packs
    every component as a 4-byte float;
  \<^item> \<open>json_number\<close>: the number that \<^verbatim>\<open>json.loads\<close> reads back from what
    \<^verbatim>\<open>vec_to_json\<close> prints for one stored component;
  \<^item> \<open>accepts_dim\<close>, \<open>accepts_k\<close>: the column dimensions the engine accepts in
    \<^verbatim>\<open>CREATE VIRTUAL TABLE\<close> and the values of \<^verbatim>\<open>k\<close> it accepts in a nearest-neighbour
    query.
  Faults of the file itself (permissions, locks, a full disk) are not modelled.
\<close>

record engine =
  distance :: "real list \<Rightarrow> real list \<Rightarrow> real"
  order_by :: "(stored_row \<Rightarrow> real) \<Rightarrow> stored_row list \<Rightarrow> stored_row list"
  float32 :: "real \<Rightarrow> real"
  json_number :: "real \<Rightarrow> real"
  accepts_dim :: "int \<Rightarrow> bool"
  accepts_k :: "int \<Rightarrow> bool"

text \<open>
  What \<^verbatim>\<open>ORDER BY\<close> promises whatever the engine: the rows come back sorted by the
  key, and they are the same rows.
\<close>

definition engine_ok :: "engine \<Rightarrow> bool" where
  "engine_ok e \<longleftrightarrow>
     (\<forall>key rs. sorted (map key (order_by e key rs)) \<and> mset (order_by e key rs) = mset rs)"

text \<open>\<^verbatim>\<open>DROP TABLE IF EXISTS vectors\<close>.\<close>

definition drop_table_if_exists :: "world \<Rightarrow> world" where
  "drop_table_if_exists w = w\<lparr>vectors := None\<rparr>"

text \<open>
  \<^verbatim>\<open>CREATE VIRTUAL TABLE IF NOT EXISTS vectors USING vec0(embedding float[D], ...)\<close>:
  nothing happens when the table exists; otherwise an empty table of dimension \<open>D\<close>
  is created, if the engine accepts the column definition.
\<close>

definition create_table_if_not_exists :: "engine \<Rightarrow> int \<Rightarrow> world \<Rightarrow> world \<times> (error + unit)" where
  "create_table_if_not_exists e d w =
     (case vectors w of
        Some t \<Rightarrow> (w, Inr ())
      | None \<Rightarrow>
          if accepts_dim e d
          then (w\<lparr>vectors := Some \<lparr>dim = d, rows = []\<rparr>\<rparr>, Inr ())
          else (w, Inl (OperationalError BadColumnDefinition)))"

text \<open>
  \<^verbatim>\<open>INSERT INTO vectors (embedding, query, content, timestamp) VALUES (?, ?, ?, ?)\<close>
  followed by \<^verbatim>\<open>commit\<close>: the row is appended, unless there is no table or the vector
  has not as many components as the column declares.
\<close>

definition insert_row :: "stored_row \<Rightarrow> world \<Rightarrow> world \<times> (error + unit)" where
  "insert_row r w =
     (case vectors w of
        None \<Rightarrow> (w, Inl (OperationalError NoSuchTable))
      | Some t \<Rightarrow>
          if int (length (embedding r)) \<noteq> dim t
          then (w, Inl (OperationalError DimensionMismatch))
          else (w\<lparr>vectors := Some (t\<lparr>rows := rows t @ [r]\<rparr>)\<rparr>, Inr ()))"

text \<open>
  \<^verbatim>\<open>SELECT vec_to_json(embedding), query, content, timestamp FROM vectors
  ORDER BY timestamp ASC\<close>.
\<close>

definition select_all :: "engine \<Rightarrow> world \<Rightarrow> error + stored_row list" where
  "select_all e w =
     (case vectors w of
        None \<Rightarrow> Inl (OperationalError NoSuchTable)
      | Some t \<Rightarrow> Inr (order_by e timestamp (rows t)))"

text \<open>
  \<^verbatim>\<open>SELECT query, content, distance FROM vectors WHERE embedding MATCH ? AND k = ?
  ORDER BY distance ASC\<close>: the first \<open>k\<close> rows in ascending order of their distance
  to the query vector \<open>v\<close>, each with that distance.
\<close>

definition select_knn :: "engine \<Rightarrow> real list \<Rightarrow> int \<Rightarrow> world \<Rightarrow> error + (stored_row \<times> real) list" where
  "select_knn e v k w =
     (case vectors w of
        None \<Rightarrow> Inl (OperationalError NoSuchTable)
      | Some t \<Rightarrow>
          if int (length v) \<noteq> dim t then Inl (OperationalError DimensionMismatch)
          else if k < 0 \<or> \<not> accepts_k e k then Inl (OperationalError BadK)
          else Inr (map (\<lambda>r. (r, distance e (embedding r) v))
                     (take (nat k) (order_by e (\<lambda>r. distance e (embedding r) v) (rows t)))))"

subsection \<open>Helpers of the methods\<close>

text \<open>
  Python's \<^verbatim>\<open>xs[:stop]\<close>: a negative \<open>stop\<close> counts from the end, and a bound
  outside the list is clamped.
\<close>

definition slice_to :: "'a list \<Rightarrow> int \<Rightarrow> 'a list" where
  "slice_to xs stop =
     (if stop < 0 then take (nat (int (length xs) + stop)) xs else take (nat stop) xs)"

text \<open>\<^verbatim>\<open>sqlite_vec.serialize_float32\<close>: every component packed as a 4-byte float.\<close>

definition serialize_float32 :: "engine \<Rightarrow> real list \<Rightarrow> real list" where
  "serialize_float32 e v = map (float32 e) v"

text \<open>
  \<^verbatim>\<open>self.embed(text)\<close>: a \<^verbatim>\<open>TypeError\<close> when the attribute is \<^verbatim>\<open>None\<close>; otherwise
  the call is made, and what it raises propagates.
\<close>

definition call_embed :: "store \<Rightarrow> string \<Rightarrow> world \<Rightarrow> world \<times> (error + real list)" where
  "call_embed st text w =
     (case embed st of
        None \<Rightarrow> (w, Inl TypeError)
      | Some f \<Rightarrow>
          (w\<lparr>embed_calls := embed_calls w @ [text]\<rparr>,
           case f text of Inl msg \<Rightarrow> Inl (EmbedRaised msg) | Inr v \<Rightarrow> Inr v))"

subsection \<open>The methods of \<^verbatim>\<open>SQLiteVecDB\<close>\<close>

text \<open>
  \<^verbatim>\<open>initialize_table(remove_old_table)\<close>: the optional \<^verbatim>\<open>DROP\<close>, then the
  \<^verbatim>\<open>CREATE ... IF NOT EXISTS\<close>. The two statements are not one transaction: when
  the second is refused the first has taken effect.
\<close>

definition initialize_table :: "engine \<Rightarrow> store \<Rightarrow> bool \<Rightarrow> world \<Rightarrow> world \<times> (error + unit)" where
  "initialize_table e st remove_old_table w =
     create_table_if_not_exists e (embedding_size st)
       (if remove_old_table then drop_table_if_exists w else w)"

text \<open>
  The constructor. Without an \<^verbatim>\<open>embedding_size\<close> it embeds the text \<^verbatim>\<open>"test"\<close> and
  takes the length of the result; with \<^verbatim>\<open>init_db\<close> it then resets the table.
\<close>

definition init :: "engine \<Rightarrow> string \<Rightarrow> int option \<Rightarrow> embedding_function option \<Rightarrow> bool \<Rightarrow> world
    \<Rightarrow> world \<times> (error + store)" where
  "init e path size_opt embedding_function init_db w =
     (let self = \<lparr>db_filepath = path, embed = embedding_function, embedding_size = 0\<rparr>;
          (w1, sized) =
            (case size_opt of
               None \<Rightarrow>
                 (case call_embed self ''test'' w of
                    (w', Inl err) \<Rightarrow> (w', Inl err)
                  | (w', Inr v) \<Rightarrow> (w', Inr (self\<lparr>embedding_size := int (length v)\<rparr>)))
             | Some d \<Rightarrow> (w, Inr (self\<lparr>embedding_size := d\<rparr>)))
      in case sized of
           Inl err \<Rightarrow> (w1, Inl err)
         | Inr st \<Rightarrow>
             if init_db
             then (case initialize_table e st True w1 of
                     (w2, Inl err) \<Rightarrow> (w2, Inl err)
                   | (w2, Inr u) \<Rightarrow> (w2, Inr st))
             else (w1, Inr st))"

text \<open>
  \<^verbatim>\<open>add_one(query, content)\<close>; \<open>now\<close> is what \<^verbatim>\<open>time.time()\<close> returns during the
  call. The embedding is computed before any statement is executed.
\<close>

definition add_one :: "engine \<Rightarrow> store \<Rightarrow> string \<Rightarrow> string \<Rightarrow> real \<Rightarrow> world \<Rightarrow> world \<times> (error + unit)" where
  "add_one e st q c now w =
     (case call_embed st q w of
        (w1, Inl err) \<Rightarrow> (w1, Inl err)
      | (w1, Inr v) \<Rightarrow>
          insert_row
            \<lparr>embedding = serialize_float32 e (slice_to v (embedding_size st)),
             query = q, content = c, timestamp = now\<rparr> w1)"

text \<open>
  \<^verbatim>\<open>get_all()\<close>: the rows by ascending timestamp, each embedding read back from the
  JSON text that \<^verbatim>\<open>vec_to_json\<close> printed.
\<close>

definition export_row :: "engine \<Rightarrow> stored_row \<Rightarrow> exported_row" where
  "export_row e r =
     \<lparr>row_embedding = map (json_number e) (embedding r), row_query = query r,
      row_content = content r, row_timestamp = timestamp r\<rparr>"

definition get_all :: "engine \<Rightarrow> store \<Rightarrow> world \<Rightarrow> world \<times> (error + exported_row list)" where
  "get_all e st w =
     (case select_all e w of
        Inl err \<Rightarrow> (w, Inl err)
      | Inr results \<Rightarrow> (w, Inr (map (export_row e) results)))"

text \<open>
  \<^verbatim>\<open>search(query, k)\<close>: the query is embedded and cut to \<^verbatim>\<open>embedding_size\<close>
  components, packed, and handed to the nearest-neighbour query.
\<close>

definition search :: "engine \<Rightarrow> store \<Rightarrow> string \<Rightarrow> int \<Rightarrow> world \<Rightarrow> world \<times> (error + search_frame)" where
  "search e st q k w =
     (case call_embed st q w of
        (w1, Inl err) \<Rightarrow> (w1, Inl err)
      | (w1, Inr v) \<Rightarrow>
          (case select_knn e (serialize_float32 e (slice_to v (embedding_size st))) k w1 of
             Inl err \<Rightarrow> (w1, Inl err)
           | Inr results \<Rightarrow>
               (w1, Inr \<lparr>order_index = [1..<Suc (length results)],
                         data = map (\<lambda>(r, d). (query r, content r, d)) results\<rparr>)))"

subsection \<open>Engines and inputs for the examples\<close>

text \<open>
  Most examples run on two instances of the engine. Both measure the distance of two
  vectors as the sum of the absolute differences of their components, pack and print
  every number exactly, and accept every positive dimension and every \<open>k\<close>. The
  first sorts stably from the insertion order, so rows with equal keys stay in the order
  in which they were inserted; the second reads the rows newest first before it sorts
  stably, so rows with equal keys come back newest first.
\<close>

definition l1_distance :: "real list \<Rightarrow> real list \<Rightarrow> real" where
  "l1_distance a b = sum_list (map2 (\<lambda>x y. \<bar>x - y\<bar>) a b)"

definition stable_engine :: engine where
  "stable_engine =
     \<lparr>distance = l1_distance, order_by = sort_key, float32 = (\<lambda>x. x),
      json_number = (\<lambda>x. x), accepts_dim = (\<lambda>d. 0 < d), accepts_k = (\<lambda>k. True)\<rparr>"

definition newest_first_engine :: engine where
  "newest_first_engine =
     \<lparr>distance = l1_distance, order_by = (\<lambda>key rs. sort_key key (rev rs)),
      float32 = (\<lambda>x. x), json_number = (\<lambda>x. x), accepts_dim = (\<lambda>d. 0 < d),
      accepts_k = (\<lambda>k. True)\<rparr>"

text \<open>
  A third engine rounds when it packs. Packing a number as a 4-byte float keeps 24
  binary digits of it: a number from 1/16 up to 1/8 becomes the nearest multiple of
  1 / 2 ^ 27, and 0 and 1 stay as they are; these are the numbers the example packs. In
  everything else the engine is the first one.
\<close>

definition rounding_engine :: engine where
  "rounding_engine =
     \<lparr>distance = l1_distance, order_by = sort_key,
      float32 = (\<lambda>x. of_int (round (x * 2 ^ 27)) / 2 ^ 27),
      json_number = (\<lambda>x. x), accepts_dim = (\<lambda>d. 0 < d), accepts_k = (\<lambda>k. True)\<rparr>"

text \<open>
  An embedding function for the examples: it returns four components, one more than
  the store of the examples keeps, and raises on one text.
\<close>

definition demo_embed :: embedding_function where
  "demo_embed text =
     (if text = ''unreachable'' then Inl ''provider unavailable''
      else if text = ''backend engineer'' then Inr [1, 0, 0, 5]
      else if text = ''frontend engineer'' then Inr [0, 1, 0, 5]
      else if text = ''backend'' then Inr [9 / 10, 1 / 10, 0, 5]
      else Inr [0, 0, 0, 0])"

definition demo_store :: store where
  "demo_store = \<lparr>db_filepath = ''rag.sqlite'', embed = Some demo_embed, embedding_size = 3\<rparr>"

definition demo_world :: world where
  "demo_world = \<lparr>vectors = Some \<lparr>dim = 3, rows = []\<rparr>, embed_calls = []\<rparr>"

text \<open>
  The table of the examples after two insertions: the two jobs of the example scenario
  of the specification, ten seconds apart.
\<close>

definition two_jobs :: world where
  "two_jobs =
     fst (add_one stable_engine demo_store ''frontend engineer'' ''Job B'' 20
       (fst (add_one stable_engine demo_store ''backend engineer'' ''Job A'' 10 demo_world)))"

section \<open>Properties\<close>

subsection \<open>Auxiliary facts\<close>

lemmas method_defs = add_one_def search_def get_all_def init_def initialize_table_def
  call_embed_def insert_row_def select_all_def select_knn_def create_table_if_not_exists_def
  drop_table_if_exists_def serialize_float32_def slice_to_def export_row_def

lemmas demo_defs = demo_embed_def demo_store_def demo_world_def stable_engine_def

lemma engine_ok_stable: "engine_ok stable_engine"
  by (simp add: engine_ok_def stable_engine_def)

lemma engine_ok_newest_first: "engine_ok newest_first_engine"
  by (simp add: engine_ok_def newest_first_engine_def)

lemma engine_ok_rounding: "engine_ok rounding_engine"
  by (simp add: engine_ok_def rounding_engine_def)

lemma two_jobs_eq:
  "two_jobs =
     \<lparr>vectors = Some \<lparr>dim = 3, rows =
        [\<lparr>embedding = [1, 0, 0], query = ''backend engineer'', content = ''Job A'', timestamp = 10\<rparr>,
         \<lparr>embedding = [0, 1, 0], query = ''frontend engineer'', content = ''Job B'', timestamp = 20\<rparr>]\<rparr>,
      embed_calls = [''backend engineer'', ''frontend engineer'']\<rparr>"
  by (simp add: two_jobs_def demo_defs method_defs)

lemma order_by_sorted: "engine_ok e \<Longrightarrow> sorted (map key (order_by e key rs))"
  by (simp add: engine_ok_def)

lemma order_by_mset: "engine_ok e \<Longrightarrow> mset (order_by e key rs) = mset rs"
  by (simp add: engine_ok_def)

lemma order_by_length: "engine_ok e \<Longrightarrow> length (order_by e key rs) = length rs"
  using order_by_mset [of e key rs] by (metis size_mset)

lemma order_by_Nil: "engine_ok e \<Longrightarrow> order_by e key [] = []"
  using order_by_length [of e key "[]"] by simp

text \<open>In a list sorted by a key, no element of a prefix lies after an element of the rest.\<close>

lemma sorted_take_drop_le:
  assumes "sorted (map d xs)" and "r \<in> set (take n xs)" and "r' \<in> set (drop n xs)"
  shows "d r \<le> d r'"
proof -
  have "sorted (map d (take n xs) @ map d (drop n xs))"
    using assms(1) by (simp flip: map_append)
  then show ?thesis
    using assms(2,3) by (auto simp: sorted_append)
qed

text \<open>
  When the keys of the rows are pairwise distinct, sorting leaves the engine no choice:
  whatever it does with equal keys, the result is that of a stable sort.
\<close>

lemma filter_key_singleton:
  "distinct zs \<Longrightarrow> inj_on d (set zs) \<Longrightarrow> k \<in> set zs \<Longrightarrow> filter (\<lambda>x. d k = d x) zs = [k]"
proof (induction zs)
  case Nil
  then show ?case by simp
next
  case (Cons z zs)
  show ?case
  proof (cases "k = z")
    case True
    have "filter (\<lambda>x. d z = d x) zs = []"
      using Cons.prems(1,2) by (auto simp: filter_empty_conv)
    with True show ?thesis by simp
  next
    case False
    with Cons.prems have "d k \<noteq> d z" by (auto simp: image_iff)
    moreover have "filter (\<lambda>x. d k = d x) zs = [k]"
      using Cons.IH Cons.prems False by auto
    ultimately show ?thesis by simp
  qed
qed

lemma sorted_distinct_keys_unique:
  assumes "mset ys = mset xs" and "sorted (map d ys)" and "distinct (map d xs)"
  shows "sort_key d xs = ys"
proof (rule properties_for_sort_key [OF assms(1) _ assms(2)])
  fix k assume k: "k \<in> set ys"
  have inj: "inj_on d (set xs)" and dx: "distinct xs"
    using assms(3) by (simp_all add: distinct_map)
  have sy: "set ys = set xs" using assms(1) by (metis set_mset_mset)
  have dy: "distinct ys" using assms(1) dx by (metis mset_eq_imp_distinct_iff)
  show "filter (\<lambda>x. d k = d x) ys = filter (\<lambda>x. d k = d x) xs"
    using filter_key_singleton [OF dy, of d k] filter_key_singleton [OF dx inj, of k]
      inj k sy by simp
qed

lemma order_by_distinct_keys:
  assumes "engine_ok e" and "distinct (map d rs)"
  shows "order_by e d rs = sort_key d rs"
  using sorted_distinct_keys_unique [OF order_by_mset [OF assms(1)] order_by_sorted [OF assms(1)]
      assms(2)] by simp

lemma order_by_increasing_keys:
  assumes "engine_ok e" and "sorted_wrt (<) (map d rs)"
  shows "order_by e d rs = rs"
proof -
  from assms(2) have "sorted (map d rs)" and "distinct (map d rs)"
    by (simp_all add: strict_sorted_iff)
  then show ?thesis
    using order_by_distinct_keys [OF assms(1), of d rs] by (simp add: sort_key_id_if_sorted)
qed

text \<open>
  A search whose query vector fits the column and whose \<open>k\<close> the engine accepts
  returns a frame, and this is the frame.
\<close>

lemma search_success:
  assumes "embed st = Some f" and "f q = Inr v" and "vectors w = Some t"
    and "int (length (slice_to v (embedding_size st))) = dim t"
    and "0 \<le> k" and "accepts_k e k"
  shows "search e st q k w =
     (w\<lparr>embed_calls := embed_calls w @ [q]\<rparr>,
      Inr \<lparr>order_index = [1..<Suc (min (length (order_by e (\<lambda>r. distance e (embedding r)
               (serialize_float32 e (slice_to v (embedding_size st)))) (rows t))) (nat k))],
           data = map (\<lambda>r. (query r, content r,
                    distance e (embedding r) (serialize_float32 e (slice_to v (embedding_size st)))))
                  (take (nat k) (order_by e (\<lambda>r. distance e (embedding r)
                     (serialize_float32 e (slice_to v (embedding_size st)))) (rows t)))\<rparr>)"
  using assms
  by (simp add: search_def call_embed_def select_knn_def serialize_float32_def o_def)

text \<open>
  When the store has the dimension of the table and the embedding has at least that
  many components, the slice fits the column.
\<close>

lemma slice_to_fits:
  "0 \<le> embedding_size st \<Longrightarrow> embedding_size st \<le> int (length v) \<Longrightarrow> dim t = embedding_size st
    \<Longrightarrow> int (length (slice_to v (embedding_size st))) = dim t"
  by (simp add: slice_to_def)

subsection \<open>Construction\<close>

text \<open>
  Claim C2, as amended. A store constructed without a dimensionality calls the embedding
  function once, on the fixed text \<^verbatim>\<open>"test"\<close>, and takes the length of the vector it
  returns as its dimensionality, whatever that length. Without a dimensionality and
  without an embedding function the construction fails with the \<^verbatim>\<open>TypeError\<close> of
  calling \<^verbatim>\<open>None\<close>; when the probe raises, the construction fails with the exception
  of the probe. In both cases the failure comes before any statement is run, so the table
  is what it was. The module has no exception class of its own, and none for a
  configuration that cannot be determined.
\<close>

theorem init_probes_or_fails:
  "(emb = Some f \<and> f ''test'' = Inr v \<longrightarrow>
        embed_calls (fst (init e path None emb init_db w)) = embed_calls w @ [''test'']
      \<and> (\<forall>st. snd (init e path None emb init_db w) = Inr st
              \<longrightarrow> embedding_size st = int (length v))
      \<and> (\<not> init_db \<or> accepts_dim e (int (length v)) \<longrightarrow>
            snd (init e path None emb init_db w)
              = Inr \<lparr>db_filepath = path, embed = emb, embedding_size = int (length v)\<rparr>))
   \<and> (emb = None \<longrightarrow> init e path None emb init_db w = (w, Inl TypeError))
   \<and> (emb = Some f \<and> f ''test'' = Inl msg \<longrightarrow>
        snd (init e path None emb init_db w) = Inl (EmbedRaised msg)
      \<and> vectors (fst (init e path None emb init_db w)) = vectors w)"
  by (auto simp: init_def call_embed_def initialize_table_def create_table_if_not_exists_def
      drop_table_if_exists_def Let_def split: option.splits sum.splits prod.splits if_splits)

text \<open>
  The embedding function of the examples returns four components for the probe; a
  construction that asks for a reset fails before the reset when there is nothing to
  probe with, or when the probe raises.
\<close>

theorem init_probes_or_fails_witness:
  "demo_embed ''test'' = Inr [0, 0, 0, 0]
   \<and> init stable_engine ''rag.sqlite'' None (Some demo_embed) False demo_world
       = (demo_world\<lparr>embed_calls := [''test'']\<rparr>,
          Inr \<lparr>db_filepath = ''rag.sqlite'', embed = Some demo_embed, embedding_size = 4\<rparr>)
   \<and> init stable_engine ''rag.sqlite'' None None True two_jobs = (two_jobs, Inl TypeError)
   \<and> snd (init stable_engine ''rag.sqlite'' None (Some (\<lambda>text. Inl ''provider unavailable''))
            True two_jobs) = Inl (EmbedRaised ''provider unavailable'')
   \<and> vectors (fst (init stable_engine ''rag.sqlite'' None
            (Some (\<lambda>text. Inl ''provider unavailable'')) True two_jobs)) = vectors two_jobs"
  using init_probes_or_fails [of "Some demo_embed" demo_embed "[0, 0, 0, 0]" stable_engine
      "''rag.sqlite''" False demo_world "''x''"]
    init_probes_or_fails [of None demo_embed "[0, 0, 0, 0]" stable_engine
      "''rag.sqlite''" True two_jobs "''x''"]
    init_probes_or_fails [of "Some (\<lambda>text. Inl ''provider unavailable'')"
      "\<lambda>text. Inl ''provider unavailable''" "[]" stable_engine
      "''rag.sqlite''" True two_jobs "''provider unavailable''"]
  by (simp add: two_jobs_eq demo_defs method_defs)

text \<open>
  The claim as it was stated names a configuration error and puts every failure of the
  construction before the schema. Without embedding function what propagates is the
  \<^verbatim>\<open>TypeError\<close>. And a probe that returns the empty vector is no failure of the
  probe: the store takes 0 as its dimensionality, the reset drops the table of the two
  jobs, and only then the engine refuses a column of dimension 0, so the construction
  fails after the table is gone.
\<close>

theorem init_failure_counterexample:
  "init stable_engine ''rag.sqlite'' None None True two_jobs = (two_jobs, Inl TypeError)
   \<and> vectors two_jobs \<noteq> None
   \<and> init stable_engine ''rag.sqlite'' None (Some (\<lambda>text. Inr [])) True two_jobs
       = (\<lparr>vectors = None,
            embed_calls = [''backend engineer'', ''frontend engineer'', ''test'']\<rparr>,
          Inl (OperationalError BadColumnDefinition))"
  by (simp add: two_jobs_eq demo_defs method_defs)

text \<open>
  Claim C10. With a dimensionality given, the constructor makes no call of the embedding
  function, whatever the other arguments: the log of calls is unchanged. Without a
  reset it changes nothing at all and returns the store, also when no embedding
  function is given. On a store without embedding function \<^verbatim>\<open>initialize_table\<close>
  succeeds whenever the engine accepts the dimension, \<^verbatim>\<open>get_all\<close> returns the rows of
  an existing table, and \<^verbatim>\<open>add_one\<close> and \<^verbatim>\<open>search\<close> fail with the
  \<^verbatim>\<open>TypeError\<close> of calling \<^verbatim>\<open>None\<close>, before anything else happens.
\<close>

theorem explicit_size_makes_no_probe:
  "embed_calls (fst (init e path (Some d) emb init_db w)) = embed_calls w
   \<and> init e path (Some d) emb False w
       = (w, Inr \<lparr>db_filepath = path, embed = emb, embedding_size = d\<rparr>)
   \<and> (embed st = None \<longrightarrow>
        (accepts_dim e (embedding_size st) \<longrightarrow>
           snd (initialize_table e st remove_old_table w) = Inr ())
      \<and> (\<forall>t. vectors w = Some t \<longrightarrow>
           get_all e st w = (w, Inr (map (export_row e) (order_by e timestamp (rows t)))))
      \<and> add_one e st q c now w = (w, Inl TypeError)
      \<and> search e st q k w = (w, Inl TypeError))"
  by (auto simp: init_def call_embed_def initialize_table_def create_table_if_not_exists_def
      drop_table_if_exists_def get_all_def select_all_def add_one_def search_def Let_def
      split: option.splits sum.splits prod.splits if_splits)

theorem explicit_size_makes_no_probe_witness:
  "init stable_engine ''rag.sqlite'' (Some 3) None False two_jobs
     = (two_jobs, Inr \<lparr>db_filepath = ''rag.sqlite'', embed = None, embedding_size = 3\<rparr>)
   \<and> snd (initialize_table stable_engine
            \<lparr>db_filepath = ''rag.sqlite'', embed = None, embedding_size = 3\<rparr> False two_jobs) = Inr ()
   \<and> get_all stable_engine \<lparr>db_filepath = ''rag.sqlite'', embed = None, embedding_size = 3\<rparr> two_jobs
       = (two_jobs, Inr
           [\<lparr>row_embedding = [1, 0, 0], row_query = ''backend engineer'', row_content = ''Job A'',
              row_timestamp = 10\<rparr>,
            \<lparr>row_embedding = [0, 1, 0], row_query = ''frontend engineer'', row_content = ''Job B'',
              row_timestamp = 20\<rparr>])
   \<and> add_one stable_engine \<lparr>db_filepath = ''rag.sqlite'', embed = None, embedding_size = 3\<rparr>
         ''backend'' ''Job C'' 30 two_jobs = (two_jobs, Inl TypeError)
   \<and> search stable_engine \<lparr>db_filepath = ''rag.sqlite'', embed = None, embedding_size = 3\<rparr>
         ''backend'' 3 two_jobs = (two_jobs, Inl TypeError)"
  using explicit_size_makes_no_probe [of stable_engine "''rag.sqlite''" 3 None False two_jobs
      "\<lparr>db_filepath = ''rag.sqlite'', embed = None, embedding_size = 3\<rparr>" False
      "''backend''" "''Job C''" 30 3]
  by (simp add: two_jobs_eq demo_defs method_defs)

subsection \<open>Schema\<close>

text \<open>
  Claim C8. \<^verbatim>\<open>initialize_table\<close> without the reset flag returns an existing table as
  it found it, rows included, and calling it twice leaves the world that calling it once
  leaves. A constructor called without \<^verbatim>\<open>init_db\<close> leaves the table alone, whatever
  its other arguments. An existing table changes under \<^verbatim>\<open>initialize_table\<close> only
  if the flag was set; with the flag, and a dimension the engine accepts, the table is
  replaced by an empty one of the dimension of the store, by the method and by the
  constructor alike.
\<close>

theorem reset_is_opt_in:
  "(vectors w = Some t \<longrightarrow> initialize_table e st False w = (w, Inr ()))
   \<and> fst (initialize_table e st False (fst (initialize_table e st False w)))
       = fst (initialize_table e st False w)
   \<and> vectors (fst (init e path size_opt emb False w)) = vectors w
   \<and> (vectors w \<noteq> None \<and> vectors (fst (initialize_table e st remove_old_table w)) \<noteq> vectors w
        \<longrightarrow> remove_old_table)
   \<and> (accepts_dim e (embedding_size st) \<longrightarrow>
        initialize_table e st True w
          = (w\<lparr>vectors := Some \<lparr>dim = embedding_size st, rows = []\<rparr>\<rparr>, Inr ()))
   \<and> (accepts_dim e d \<longrightarrow>
        vectors (fst (init e path (Some d) emb True w)) = Some \<lparr>dim = d, rows = []\<rparr>)"
  by (auto simp: init_def call_embed_def initialize_table_def create_table_if_not_exists_def
      drop_table_if_exists_def Let_def split: option.splits sum.splits prod.splits if_splits)

theorem reset_is_opt_in_witness:
  "initialize_table stable_engine demo_store False two_jobs = (two_jobs, Inr ())
   \<and> vectors (fst (init stable_engine ''rag.sqlite'' None (Some demo_embed) False two_jobs))
       = vectors two_jobs
   \<and> vectors (fst (initialize_table stable_engine demo_store True two_jobs)) \<noteq> vectors two_jobs
   \<and> initialize_table stable_engine demo_store True two_jobs
       = (two_jobs\<lparr>vectors := Some \<lparr>dim = 3, rows = []\<rparr>\<rparr>, Inr ())
   \<and> vectors (fst (init stable_engine ''rag.sqlite'' (Some 3) None True two_jobs))
       = Some \<lparr>dim = 3, rows = []\<rparr>"
  using reset_is_opt_in [of two_jobs
      "\<lparr>dim = 3, rows =
        [\<lparr>embedding = [1, 0, 0], query = ''backend engineer'', content = ''Job A'', timestamp = 10\<rparr>,
         \<lparr>embedding = [0, 1, 0], query = ''frontend engineer'', content = ''Job B'', timestamp = 20\<rparr>]\<rparr>"
      stable_engine demo_store "''rag.sqlite''" None "Some demo_embed" True 3]
    reset_is_opt_in [of two_jobs
      "\<lparr>dim = 3, rows =
        [\<lparr>embedding = [1, 0, 0], query = ''backend engineer'', content = ''Job A'', timestamp = 10\<rparr>,
         \<lparr>embedding = [0, 1, 0], query = ''frontend engineer'', content = ''Job B'', timestamp = 20\<rparr>]\<rparr>"
      stable_engine demo_store "''rag.sqlite''" "Some 3" None True 3]
  by (simp add: two_jobs_eq demo_defs method_defs)

subsection \<open>Insertion\<close>

text \<open>
  Claim C1, as amended. Let the embedding function return \<open>v\<close> for the query, and let
  \<open>D\<close> be the dimensionality of the store. When \<open>D \<ge> 0\<close>, the table has
  dimension \<open>D\<close> and \<open>v\<close> has at least \<open>D\<close> components, \<^verbatim>\<open>add_one\<close> returns: a
  longer vector is not rejected. Whenever \<^verbatim>\<open>add_one\<close> returns, the table has gained
  exactly one row, at its end, with the query and the content of the call; its vector is
  the packed slice \<^verbatim>\<open>v[:D]\<close> and has as many components as the column of the table
  declares. These are the first \<open>D\<close> components of \<open>v\<close>, exactly \<open>D\<close> of them,
  if \<open>D \<ge> 0\<close> and \<open>v\<close> has at least \<open>D\<close> components; and they are \<open>D\<close>
  whenever the table was created with dimension \<open>D\<close>.
\<close>

theorem add_one_stores_D_components:
  assumes "embed st = Some f" and "f q = Inr v" and "vectors w = Some t"
  shows "(0 \<le> embedding_size st \<and> dim t = embedding_size st \<and> embedding_size st \<le> int (length v)
            \<longrightarrow> snd (add_one e st q c now w) = Inr ())
       \<and> (snd (add_one e st q c now w) = Inr () \<longrightarrow>
            (\<exists>r. vectors (fst (add_one e st q c now w)) = Some (t\<lparr>rows := rows t @ [r]\<rparr>)
               \<and> embedding r = map (float32 e) (slice_to v (embedding_size st))
               \<and> query r = q \<and> content r = c
               \<and> int (length (embedding r)) = dim t
               \<and> (0 \<le> embedding_size st \<and> embedding_size st \<le> int (length v) \<longrightarrow>
                     embedding r = map (float32 e) (take (nat (embedding_size st)) v)
                   \<and> int (length (embedding r)) = embedding_size st)
               \<and> (dim t = embedding_size st \<longrightarrow>
                     int (length (embedding r)) = embedding_size st)))"
  using assms
  by (auto simp: add_one_def call_embed_def insert_row_def serialize_float32_def
      slice_to_def split: if_splits)

text \<open>
  The store of the examples keeps 3 components; the embedding of the query has 4, and
  the row holds the first 3.
\<close>

theorem add_one_stores_D_components_witness:
  "embed demo_store = Some demo_embed
   \<and> demo_embed ''backend engineer'' = Inr [1, 0, 0, 5]
   \<and> vectors demo_world = Some \<lparr>dim = 3, rows = []\<rparr>
   \<and> snd (add_one stable_engine demo_store ''backend engineer'' ''Job A'' 10 demo_world) = Inr ()
   \<and> vectors (fst (add_one stable_engine demo_store ''backend engineer'' ''Job A'' 10 demo_world))
       = Some \<lparr>dim = 3, rows = [\<lparr>embedding = [1, 0, 0], query = ''backend engineer'',
                                  content = ''Job A'', timestamp = 10\<rparr>]\<rparr>"
  using add_one_stores_D_components [of demo_store demo_embed "''backend engineer''"
      "[1, 0, 0, 5]" demo_world "\<lparr>dim = 3, rows = []\<rparr>" stable_engine "''Job A''" 10]
  by (simp add: demo_defs method_defs)

text \<open>
  The claim as it was stated gives every row that \<^verbatim>\<open>add_one\<close> stores exactly \<open>D\<close>
  components. \<^verbatim>\<open>add_one\<close> compares \<open>D\<close> neither with the length of the embedding
  nor with the dimension of the table. A store of dimensionality 6, on a table that was
  created with dimension 4, gets 4 components from the embedding function: the call
  returns and the row has 4 components. And a dimensionality need not be a count: with
  \<^verbatim>\<open>embedding_size = -1\<close> the slice drops the last component, and on the table of
  dimension 3 the call returns with a row of 3 components.
\<close>

theorem add_one_other_dimension_counterexample:
  "demo_embed ''frontend engineer'' = Inr [0, 1, 0, 5]
   \<and> add_one stable_engine (demo_store\<lparr>embedding_size := 6\<rparr>) ''frontend engineer'' ''Job B'' 10
        (demo_world\<lparr>vectors := Some \<lparr>dim = 4, rows = []\<rparr>\<rparr>)
       = (\<lparr>vectors = Some \<lparr>dim = 4, rows = [\<lparr>embedding = [0, 1, 0, 5],
                query = ''frontend engineer'', content = ''Job B'', timestamp = 10\<rparr>]\<rparr>,
           embed_calls = [''frontend engineer'']\<rparr>, Inr ())
   \<and> int (length [0, 1, 0, 5 :: real]) \<noteq> 6
   \<and> add_one stable_engine (demo_store\<lparr>embedding_size := - 1\<rparr>) ''frontend engineer'' ''Job B'' 10
        demo_world
       = (\<lparr>vectors = Some \<lparr>dim = 3, rows = [\<lparr>embedding = [0, 1, 0],
                query = ''frontend engineer'', content = ''Job B'', timestamp = 10\<rparr>]\<rparr>,
           embed_calls = [''frontend engineer'']\<rparr>, Inr ())
   \<and> int (length [0, 1, 0 :: real]) \<noteq> - 1"
  by (simp add: demo_defs method_defs)

text \<open>
  Claim C3, as amended. \<^verbatim>\<open>add_one\<close> has no check of its own on the length of the
  embedding. It fails
  \<^item> with the \<^verbatim>\<open>TypeError\<close> of calling \<^verbatim>\<open>None\<close> when the store has no embedding
    function, and with the exception of the embedding function when that raises, in both
    cases before any statement is run;
  \<^item> with the error of the storage engine when there is no table, or when the slice
    \<^verbatim>\<open>v[:D]\<close> has not as many components as the column of the table declares. This
    is how an embedding of fewer than \<open>D\<close> components fails on a table of dimension
    \<open>D\<close>: in the storage layer, not as an error of the embedding.
  In each of these cases the table is what it was. In every other case, namely when the
  slice has exactly as many components as the column declares, \<^verbatim>\<open>add_one\<close> returns.
\<close>

theorem add_one_failure_modes:
  "(embed st = None \<longrightarrow> add_one e st q c now w = (w, Inl TypeError))
   \<and> (embed st = Some f \<and> f q = Inl msg \<longrightarrow>
        snd (add_one e st q c now w) = Inl (EmbedRaised msg)
      \<and> vectors (fst (add_one e st q c now w)) = vectors w)
   \<and> (embed st = Some f \<and> f q = Inr v \<and> vectors w = None \<longrightarrow>
        snd (add_one e st q c now w) = Inl (OperationalError NoSuchTable)
      \<and> vectors (fst (add_one e st q c now w)) = vectors w)
   \<and> (embed st = Some f \<and> f q = Inr v \<and> vectors w = Some t
        \<and> int (length (slice_to v (embedding_size st))) \<noteq> dim t \<longrightarrow>
        snd (add_one e st q c now w) = Inl (OperationalError DimensionMismatch)
      \<and> vectors (fst (add_one e st q c now w)) = vectors w)
   \<and> (embed st = Some f \<and> f q = Inr v \<and> vectors w = Some t
        \<and> int (length v) < embedding_size st \<and> dim t = embedding_size st \<longrightarrow>
        snd (add_one e st q c now w) = Inl (OperationalError DimensionMismatch))
   \<and> (embed st = Some f \<and> f q = Inr v \<and> vectors w = Some t
        \<and> int (length (slice_to v (embedding_size st))) = dim t \<longrightarrow>
        snd (add_one e st q c now w) = Inr ())"
  by (auto simp: add_one_def call_embed_def insert_row_def serialize_float32_def
      slice_to_def split: if_splits)

theorem add_one_failure_modes_witness:
  "add_one stable_engine (demo_store\<lparr>embed := None\<rparr>) ''backend'' ''Job A'' 10 demo_world
     = (demo_world, Inl TypeError)
   \<and> demo_embed ''unreachable'' = Inl ''provider unavailable''
   \<and> snd (add_one stable_engine demo_store ''unreachable'' ''Job A'' 10 demo_world)
       = Inl (EmbedRaised ''provider unavailable'')
   \<and> vectors (fst (add_one stable_engine demo_store ''unreachable'' ''Job A'' 10 demo_world))
       = vectors demo_world
   \<and> snd (add_one stable_engine demo_store ''backend'' ''Job A'' 10 (demo_world\<lparr>vectors := None\<rparr>))
       = Inl (OperationalError NoSuchTable)
   \<and> snd (add_one stable_engine (demo_store\<lparr>embedding_size := 5\<rparr>) ''backend'' ''Job A'' 10
            (demo_world\<lparr>vectors := Some \<lparr>dim = 5, rows = []\<rparr>\<rparr>))
       = Inl (OperationalError DimensionMismatch)
   \<and> snd (add_one stable_engine demo_store ''backend'' ''Job A'' 10 demo_world) = Inr ()"
  using add_one_failure_modes [of "demo_store\<lparr>embed := None\<rparr>" stable_engine "''backend''"
      "''Job A''" 10 demo_world demo_embed "''x''" "[]" "\<lparr>dim = 3, rows = []\<rparr>"]
    add_one_failure_modes [of demo_store stable_engine "''unreachable''"
      "''Job A''" 10 demo_world demo_embed "''provider unavailable''" "[]" "\<lparr>dim = 3, rows = []\<rparr>"]
    add_one_failure_modes [of demo_store stable_engine "''backend''"
      "''Job A''" 10 "demo_world\<lparr>vectors := None\<rparr>" demo_embed "''x''" "[9 / 10, 1 / 10, 0, 5]"
      "\<lparr>dim = 3, rows = []\<rparr>"]
    add_one_failure_modes [of "demo_store\<lparr>embedding_size := 5\<rparr>" stable_engine "''backend''"
      "''Job A''" 10 "demo_world\<lparr>vectors := Some \<lparr>dim = 5, rows = []\<rparr>\<rparr>" demo_embed "''x''"
      "[9 / 10, 1 / 10, 0, 5]" "\<lparr>dim = 5, rows = []\<rparr>"]
    add_one_failure_modes [of demo_store stable_engine "''backend''"
      "''Job A''" 10 demo_world demo_embed "''x''" "[9 / 10, 1 / 10, 0, 5]" "\<lparr>dim = 3, rows = []\<rparr>"]
  by (simp add: demo_defs method_defs)

text \<open>
  The claim as it was stated fails where the embedding has fewer components than the
  store expects. A store of dimensionality 5 gets 4 components from the embedding
  function. On a table of dimension 5 the call fails, but with the error of the storage
  engine; on a table of dimension 4 it returns, and the row of 4 components is stored.
\<close>

theorem add_one_short_vector_counterexample:
  "demo_embed ''backend'' = Inr [9 / 10, 1 / 10, 0, 5]
   \<and> snd (add_one stable_engine (demo_store\<lparr>embedding_size := 5\<rparr>) ''backend'' ''Job A'' 10
            (demo_world\<lparr>vectors := Some \<lparr>dim = 5, rows = []\<rparr>\<rparr>))
       = Inl (OperationalError DimensionMismatch)
   \<and> add_one stable_engine (demo_store\<lparr>embedding_size := 5\<rparr>) ''backend'' ''Job A'' 10
            (demo_world\<lparr>vectors := Some \<lparr>dim = 4, rows = []\<rparr>\<rparr>)
       = (\<lparr>vectors = Some \<lparr>dim = 4, rows = [\<lparr>embedding = [9 / 10, 1 / 10, 0, 5],
                query = ''backend'', content = ''Job A'', timestamp = 10\<rparr>]\<rparr>,
           embed_calls = [''backend'']\<rparr>, Inr ())"
  by (simp add: demo_defs method_defs)

text \<open>
  Claim C9. When the embedding function raises, \<^verbatim>\<open>add_one\<close> and \<^verbatim>\<open>search\<close> fail
  with its exception and the table is what it was before the call: the embedding is
  computed before the first statement is executed. More generally the table is
  unchanged after every \<^verbatim>\<open>add_one\<close> that fails, whatever the failure, and after
  every \<^verbatim>\<open>search\<close>.
\<close>

theorem failed_calls_leave_rows:
  "(embed st = Some f \<and> f q = Inl msg \<longrightarrow>
        snd (add_one e st q c now w) = Inl (EmbedRaised msg)
      \<and> vectors (fst (add_one e st q c now w)) = vectors w
      \<and> snd (search e st q k w) = Inl (EmbedRaised msg)
      \<and> vectors (fst (search e st q k w)) = vectors w)
   \<and> (snd (add_one e st q c now w) = Inl err \<longrightarrow>
        vectors (fst (add_one e st q c now w)) = vectors w)
   \<and> vectors (fst (search e st q k w)) = vectors w"
  by (auto simp: add_one_def search_def call_embed_def insert_row_def
      split: option.splits sum.splits prod.splits if_splits)

theorem failed_calls_leave_rows_witness:
  "demo_embed ''unreachable'' = Inl ''provider unavailable''
   \<and> snd (add_one stable_engine demo_store ''unreachable'' ''Job C'' 30 two_jobs)
       = Inl (EmbedRaised ''provider unavailable'')
   \<and> vectors (fst (add_one stable_engine demo_store ''unreachable'' ''Job C'' 30 two_jobs))
       = vectors two_jobs
   \<and> snd (search stable_engine demo_store ''unreachable'' 3 two_jobs)
       = Inl (EmbedRaised ''provider unavailable'')
   \<and> vectors (fst (search stable_engine demo_store ''unreachable'' 3 two_jobs)) = vectors two_jobs"
  using failed_calls_leave_rows [of demo_store demo_embed "''unreachable''"
      "''provider unavailable''" stable_engine "''Job C''" 30 two_jobs 3
      "EmbedRaised ''provider unavailable''"]
  by (simp add: two_jobs_eq demo_defs method_defs)

subsection \<open>Search\<close>

text \<open>
  The theorems on \<^verbatim>\<open>search\<close> are about a search that reaches the table: the
  embedding function returns a vector \<open>v\<close> for the query, and the slice \<^verbatim>\<open>v[:D]\<close>
  has as many components as the column of the table declares (by \<open>slice_to_fits\<close> it
  has when the table has the dimension \<open>D\<close> of the store and \<open>v\<close> has at least
  \<open>D\<close> components).

  Claim C4. On a table of \<open>N\<close> rows such a search with \<open>k \<ge> 1\<close>, a \<open>k\<close> that
  the engine accepts, returns a frame of exactly \<open>min N k\<close> rows, indexed from 1. On
  an empty table the frame is empty, and it is a frame, not an error.
\<close>

theorem search_cardinality:
  assumes "engine_ok e" and "embed st = Some f" and "f q = Inr v" and "vectors w = Some t"
    and "int (length (slice_to v (embedding_size st))) = dim t"
    and "1 \<le> k" and "accepts_k e k"
  shows "\<exists>fr. snd (search e st q k w) = Inr fr
           \<and> length (data fr) = min (length (rows t)) (nat k)
           \<and> order_index fr = [1..<Suc (length (data fr))]
           \<and> (rows t = [] \<longrightarrow> data fr = [])"
proof -
  from assms have k0: "0 \<le> k" by simp
  show ?thesis
    using search_success [OF assms(2-5) k0 assms(7)] order_by_length [OF assms(1)]
      order_by_Nil [OF assms(1)]
    by (auto simp: min_def)
qed

text \<open>
  Two rows and \<open>k = 5\<close> give two results, \<open>k = 1\<close> gives one, and the empty table
  gives none.
\<close>

theorem search_cardinality_witness:
  "engine_ok stable_engine
   \<and> demo_embed ''backend'' = Inr [9 / 10, 1 / 10, 0, 5]
   \<and> snd (search stable_engine demo_store ''backend'' 5 two_jobs)
       = Inr \<lparr>order_index = [1, 2],
              data = [(''backend engineer'', ''Job A'', 2 / 10),
                      (''frontend engineer'', ''Job B'', 18 / 10)]\<rparr>
   \<and> snd (search stable_engine demo_store ''backend'' 1 two_jobs)
       = Inr \<lparr>order_index = [1], data = [(''backend engineer'', ''Job A'', 2 / 10)]\<rparr>
   \<and> snd (search stable_engine demo_store ''backend'' 5 demo_world)
       = Inr \<lparr>order_index = [], data = []\<rparr>"
  using search_cardinality [OF engine_ok_stable, of demo_store demo_embed "''backend''"
      "[9 / 10, 1 / 10, 0, 5]" two_jobs
      "\<lparr>dim = 3, rows =
        [\<lparr>embedding = [1, 0, 0], query = ''backend engineer'', content = ''Job A'', timestamp = 10\<rparr>,
         \<lparr>embedding = [0, 1, 0], query = ''frontend engineer'', content = ''Job B'', timestamp = 20\<rparr>]\<rparr>" 5]
    engine_ok_stable
  by (simp add: two_jobs_eq demo_defs method_defs l1_distance_def)

text \<open>
  Claim C5, as amended. The rows of the frame are \<open>min N k\<close> rows of the table, each
  with its distance to the packed slice of the query vector; no row left out is nearer
  than a row returned; the distances ascend along the frame, so each is at most the
  next. The statement of \<^verbatim>\<open>search\<close> orders by the distance alone: the order of rows
  at equal distance, and which of them are returned when \<open>k\<close> cuts through them, is
  the engine's. When the distances of the rows of the table are pairwise distinct the
  engine has no choice, and the frame holds the first \<open>k\<close> rows of the table sorted by
  distance.
\<close>

theorem search_nearest_ascending:
  assumes "engine_ok e" and "embed st = Some f" and "f q = Inr v" and "vectors w = Some t"
    and "int (length (slice_to v (embedding_size st))) = dim t"
    and "1 \<le> k" and "accepts_k e k"
  shows "\<exists>fr sel rest.
           snd (search e st q k w) = Inr fr
         \<and> data fr = map (\<lambda>r. (query r, content r,
               distance e (embedding r) (serialize_float32 e (slice_to v (embedding_size st))))) sel
         \<and> mset (rows t) = mset sel + mset rest
         \<and> length sel = min (length (rows t)) (nat k)
         \<and> (\<forall>r\<in>set sel. \<forall>r'\<in>set rest.
               distance e (embedding r) (serialize_float32 e (slice_to v (embedding_size st)))
             \<le> distance e (embedding r') (serialize_float32 e (slice_to v (embedding_size st))))
         \<and> sorted (map (\<lambda>(q', c', d'). d') (data fr))
         \<and> (\<forall>i. Suc i < length (data fr) \<longrightarrow>
               snd (snd (data fr ! i)) \<le> snd (snd (data fr ! Suc i)))
         \<and> (distinct (map (\<lambda>r. distance e (embedding r)
                 (serialize_float32 e (slice_to v (embedding_size st)))) (rows t)) \<longrightarrow>
               sel = take (nat k) (sort_key (\<lambda>r. distance e (embedding r)
                 (serialize_float32 e (slice_to v (embedding_size st)))) (rows t)))"
proof -
  define d :: "stored_row \<Rightarrow> real" where "d = (\<lambda>r. distance e (embedding r)
      (serialize_float32 e (slice_to v (embedding_size st))))"
  define xs where "xs = order_by e d (rows t)"
  define sel where "sel = take (nat k) xs"
  define rest where "rest = drop (nat k) xs"
  define fr where "fr = \<lparr>order_index = [1..<Suc (min (length xs) (nat k))],
      data = map (\<lambda>r. (query r, content r, d r)) sel\<rparr>"
  from assms have k0: "0 \<le> k" by simp
  have sx: "sorted (map d xs)" and mx: "mset xs = mset (rows t)" and lx: "length xs = length (rows t)"
    unfolding xs_def
    using order_by_sorted [OF assms(1)] order_by_mset [OF assms(1)] order_by_length [OF assms(1)]
    by simp_all
  have res: "snd (search e st q k w) = Inr fr"
    using search_success [OF assms(2-5) k0 assms(7)]
    by (simp add: fr_def sel_def xs_def d_def)
  have dat: "data fr = map (\<lambda>r. (query r, content r, d r)) sel"
    by (simp add: fr_def)
  have "mset sel + mset rest = mset xs"
    unfolding sel_def rest_def by (simp flip: mset_append)
  with mx have split: "mset (rows t) = mset sel + mset rest" by simp
  have len: "length sel = min (length (rows t)) (nat k)"
    by (simp add: sel_def lx)
  have near: "\<forall>r\<in>set sel. \<forall>r'\<in>set rest. d r \<le> d r'"
    unfolding sel_def rest_def using sorted_take_drop_le [OF sx] by blast
  have dists: "map (\<lambda>(q', c', d'). d') (data fr) = map d sel"
    by (simp add: dat o_def)
  have ssel: "sorted (map d sel)"
    unfolding sel_def using sx by (simp add: take_map [symmetric] sorted_wrt_take)
  have asc: "sorted (map (\<lambda>(q', c', d'). d') (data fr))"
    using ssel dists by simp
  have adj: "\<forall>i. Suc i < length (data fr) \<longrightarrow>
      snd (snd (data fr ! i)) \<le> snd (snd (data fr ! Suc i))"
  proof (intro allI impI)
    fix i assume i: "Suc i < length (data fr)"
    then have "Suc i < length sel" by (simp add: dat)
    then have "map d sel ! i \<le> map d sel ! Suc i"
      using ssel by (intro sorted_nth_mono) simp_all
    with \<open>Suc i < length sel\<close> show "snd (snd (data fr ! i)) \<le> snd (snd (data fr ! Suc i))"
      by (simp add: dat)
  qed
  have uniq: "distinct (map d (rows t)) \<longrightarrow> sel = take (nat k) (sort_key d (rows t))"
    using order_by_distinct_keys [OF assms(1), of d "rows t"] by (simp add: sel_def xs_def)
  from res dat split len near asc adj uniq show ?thesis
    unfolding d_def by blast
qed

text \<open>
  The example scenario of the specification: the query lies nearer to job A than to
  job B, so \<open>k = 1\<close> returns job A, and \<open>k = 2\<close> returns job A before job B.
\<close>

theorem search_nearest_ascending_witness:
  "engine_ok stable_engine
   \<and> embed demo_store = Some demo_embed
   \<and> demo_embed ''backend'' = Inr [9 / 10, 1 / 10, 0, 5]
   \<and> snd (search stable_engine demo_store ''backend'' 1 two_jobs)
       = Inr \<lparr>order_index = [1], data = [(''backend engineer'', ''Job A'', 2 / 10)]\<rparr>
   \<and> snd (search stable_engine demo_store ''backend'' 2 two_jobs)
       = Inr \<lparr>order_index = [1, 2],
              data = [(''backend engineer'', ''Job A'', 2 / 10),
                      (''frontend engineer'', ''Job B'', 18 / 10)]\<rparr>"
  using search_nearest_ascending [OF engine_ok_stable, of demo_store demo_embed "''backend''"
      "[9 / 10, 1 / 10, 0, 5]" two_jobs
      "\<lparr>dim = 3, rows =
        [\<lparr>embedding = [1, 0, 0], query = ''backend engineer'', content = ''Job A'', timestamp = 10\<rparr>,
         \<lparr>embedding = [0, 1, 0], query = ''frontend engineer'', content = ''Job B'', timestamp = 20\<rparr>]\<rparr>" 1]
    engine_ok_stable
  by (simp add: two_jobs_eq demo_defs method_defs l1_distance_def)

text \<open>
  The claim as it was stated breaks ties by insertion order. Nothing in the statement of
  \<^verbatim>\<open>search\<close> asks for that. Two rows are inserted with the same embedding, job A
  before job A2, so they lie at the same distance from every query. On the engine that
  reads the newest rows first, which sorts by distance as \<^verbatim>\<open>ORDER BY\<close> asks, job A2
  comes back before job A, and with \<open>k = 1\<close> job A2 alone.
\<close>

theorem search_tie_order_counterexample:
  "engine_ok newest_first_engine
   \<and> vectors (fst (add_one newest_first_engine demo_store ''backend engineer'' ''Job A2'' 20
        (fst (add_one newest_first_engine demo_store ''backend engineer'' ''Job A'' 10 demo_world))))
       = Some \<lparr>dim = 3, rows =
           [\<lparr>embedding = [1, 0, 0], query = ''backend engineer'', content = ''Job A'', timestamp = 10\<rparr>,
            \<lparr>embedding = [1, 0, 0], query = ''backend engineer'', content = ''Job A2'', timestamp = 20\<rparr>]\<rparr>
   \<and> snd (search newest_first_engine demo_store ''backend'' 2
        (fst (add_one newest_first_engine demo_store ''backend engineer'' ''Job A2'' 20
          (fst (add_one newest_first_engine demo_store ''backend engineer'' ''Job A'' 10 demo_world)))))
       = Inr \<lparr>order_index = [1, 2],
              data = [(''backend engineer'', ''Job A2'', 2 / 10),
                      (''backend engineer'', ''Job A'', 2 / 10)]\<rparr>
   \<and> snd (search newest_first_engine demo_store ''backend'' 1
        (fst (add_one newest_first_engine demo_store ''backend engineer'' ''Job A2'' 20
          (fst (add_one newest_first_engine demo_store ''backend engineer'' ''Job A'' 10 demo_world)))))
       = Inr \<lparr>order_index = [1], data = [(''backend engineer'', ''Job A2'', 2 / 10)]\<rparr>"
  using engine_ok_newest_first
  by (simp add: newest_first_engine_def demo_defs method_defs l1_distance_def)

subsection \<open>Bulk export\<close>

text \<open>
  Claim C7, as amended. On an existing table \<^verbatim>\<open>get_all\<close> changes nothing and returns
  every stored row once, in ascending order of the timestamps. That order is the order
  of insertion when the timestamps of the rows strictly increase in the order of
  insertion; the timestamp is what \<^verbatim>\<open>time.time()\<close> returned during the insertion,
  and nothing makes two readings of the clock increase. After an \<^verbatim>\<open>add_one\<close> that
  returned, \<^verbatim>\<open>get_all\<close> returns the rows that were there and the new one, which comes
  last when its timestamp lies after all the others. The embedding of the new row is not
  the sequence that was inserted but what the storage makes of it: the slice \<^verbatim>\<open>v[:D]\<close>
  of the embedding \<open>v\<close>, each component packed as a 4-byte float, printed by
  \<^verbatim>\<open>vec_to_json\<close> and read back.
\<close>

theorem get_all_by_timestamp:
  assumes "engine_ok e" and "vectors w = Some t"
  shows "(\<exists>recs. get_all e st w = (w, Inr recs)
           \<and> mset recs = mset (map (export_row e) (rows t))
           \<and> sorted (map row_timestamp recs)
           \<and> (sorted_wrt (<) (map timestamp (rows t)) \<longrightarrow> recs = map (export_row e) (rows t)))
       \<and> (embed st = Some f \<and> f q = Inr v \<and> snd (add_one e st q c now w) = Inr () \<longrightarrow>
            (\<exists>recs. snd (get_all e st (fst (add_one e st q c now w))) = Inr recs
               \<and> mset recs = mset (map (export_row e) (rows t))
                   + {#\<lparr>row_embedding = map (\<lambda>x. json_number e (float32 e x))
                                           (slice_to v (embedding_size st)),
                        row_query = q, row_content = c, row_timestamp = now\<rparr>#}
               \<and> sorted (map row_timestamp recs)
               \<and> (sorted_wrt (<) (map timestamp (rows t)) \<and> (\<forall>r\<in>set (rows t). timestamp r < now)
                    \<longrightarrow> recs = map (export_row e) (rows t)
                          @ [\<lparr>row_embedding = map (\<lambda>x. json_number e (float32 e x))
                                                 (slice_to v (embedding_size st)),
                              row_query = q, row_content = c, row_timestamp = now\<rparr>])))"
proof (intro conjI impI)
  define recs where "recs = map (export_row e) (order_by e timestamp (rows t))"
  have ts: "map row_timestamp recs = map timestamp (order_by e timestamp (rows t))"
    by (simp add: recs_def export_row_def o_def)
  have "get_all e st w = (w, Inr recs)"
    using assms(2) by (simp add: get_all_def select_all_def recs_def)
  moreover have "mset recs = mset (map (export_row e) (rows t))"
    using order_by_mset [OF assms(1), of timestamp "rows t"]
    by (simp add: recs_def)
  moreover have "sorted (map row_timestamp recs)"
    using order_by_sorted [OF assms(1), of timestamp "rows t"] by (simp add: ts)
  moreover have "sorted_wrt (<) (map timestamp (rows t)) \<longrightarrow> recs = map (export_row e) (rows t)"
    using order_by_increasing_keys [OF assms(1), of timestamp "rows t"] by (simp add: recs_def)
  ultimately show "\<exists>recs. get_all e st w = (w, Inr recs)
           \<and> mset recs = mset (map (export_row e) (rows t))
           \<and> sorted (map row_timestamp recs)
           \<and> (sorted_wrt (<) (map timestamp (rows t)) \<longrightarrow> recs = map (export_row e) (rows t))"
    by blast
next
  assume a: "embed st = Some f \<and> f q = Inr v \<and> snd (add_one e st q c now w) = Inr ()"
  define r where "r = \<lparr>embedding = serialize_float32 e (slice_to v (embedding_size st)),
      query = q, content = c, timestamp = now\<rparr>"
  define new where "new = \<lparr>row_embedding = map (\<lambda>x. json_number e (float32 e x))
      (slice_to v (embedding_size st)), row_query = q, row_content = c, row_timestamp = now\<rparr>"
  define rs where "rs = rows t @ [r]"
  define recs where "recs = map (export_row e) (order_by e timestamp rs)"
  have v': "vectors (fst (add_one e st q c now w)) = Some (t\<lparr>rows := rs\<rparr>)"
    using a assms(2)
    by (auto simp: add_one_def call_embed_def insert_row_def r_def rs_def split: if_splits)
  have ex: "export_row e r = new"
    by (simp add: export_row_def r_def new_def serialize_float32_def o_def)
  have ts: "map row_timestamp recs = map timestamp (order_by e timestamp rs)"
    by (simp add: recs_def export_row_def o_def)
  have "snd (get_all e st (fst (add_one e st q c now w))) = Inr recs"
    using v' by (simp add: get_all_def select_all_def recs_def)
  moreover have "mset recs = mset (map (export_row e) (rows t)) + {#new#}"
    using order_by_mset [OF assms(1), of timestamp rs] ex
    by (simp add: recs_def rs_def)
  moreover have "sorted (map row_timestamp recs)"
    using order_by_sorted [OF assms(1), of timestamp rs] by (simp add: ts)
  moreover have "sorted_wrt (<) (map timestamp (rows t)) \<and> (\<forall>r\<in>set (rows t). timestamp r < now)
      \<longrightarrow> recs = map (export_row e) (rows t) @ [new]"
  proof
    assume b: "sorted_wrt (<) (map timestamp (rows t)) \<and> (\<forall>r\<in>set (rows t). timestamp r < now)"
    then have "sorted_wrt (<) (map timestamp rs)"
      by (auto simp: rs_def r_def sorted_wrt_append)
    then have "order_by e timestamp rs = rs"
      by (rule order_by_increasing_keys [OF assms(1)])
    then show "recs = map (export_row e) (rows t) @ [new]"
      using ex by (simp add: recs_def rs_def)
  qed
  ultimately show "\<exists>recs. snd (get_all e st (fst (add_one e st q c now w))) = Inr recs
               \<and> mset recs = mset (map (export_row e) (rows t))
                   + {#\<lparr>row_embedding = map (\<lambda>x. json_number e (float32 e x))
                                           (slice_to v (embedding_size st)),
                        row_query = q, row_content = c, row_timestamp = now\<rparr>#}
               \<and> sorted (map row_timestamp recs)
               \<and> (sorted_wrt (<) (map timestamp (rows t)) \<and> (\<forall>r\<in>set (rows t). timestamp r < now)
                    \<longrightarrow> recs = map (export_row e) (rows t)
                          @ [\<lparr>row_embedding = map (\<lambda>x. json_number e (float32 e x))
                                                 (slice_to v (embedding_size st)),
                              row_query = q, row_content = c, row_timestamp = now\<rparr>])"
    unfolding new_def by blast
qed

text \<open>
  Two rows inserted at 10 and 20 come back in that order, and a third inserted at 30
  comes back last, with the three components that were kept of its embedding.
\<close>

theorem get_all_by_timestamp_witness:
  "engine_ok stable_engine
   \<and> get_all stable_engine demo_store two_jobs
       = (two_jobs, Inr
           [\<lparr>row_embedding = [1, 0, 0], row_query = ''backend engineer'', row_content = ''Job A'',
              row_timestamp = 10\<rparr>,
            \<lparr>row_embedding = [0, 1, 0], row_query = ''frontend engineer'', row_content = ''Job B'',
              row_timestamp = 20\<rparr>])
   \<and> demo_embed ''backend'' = Inr [9 / 10, 1 / 10, 0, 5]
   \<and> snd (get_all stable_engine demo_store
            (fst (add_one stable_engine demo_store ''backend'' ''Job C'' 30 two_jobs)))
       = Inr
           [\<lparr>row_embedding = [1, 0, 0], row_query = ''backend engineer'', row_content = ''Job A'',
              row_timestamp = 10\<rparr>,
            \<lparr>row_embedding = [0, 1, 0], row_query = ''frontend engineer'', row_content = ''Job B'',
              row_timestamp = 20\<rparr>,
            \<lparr>row_embedding = [9 / 10, 1 / 10, 0], row_query = ''backend'', row_content = ''Job C'',
              row_timestamp = 30\<rparr>]"
  using get_all_by_timestamp [OF engine_ok_stable, of two_jobs
      "\<lparr>dim = 3, rows =
        [\<lparr>embedding = [1, 0, 0], query = ''backend engineer'', content = ''Job A'', timestamp = 10\<rparr>,
         \<lparr>embedding = [0, 1, 0], query = ''frontend engineer'', content = ''Job B'', timestamp = 20\<rparr>]\<rparr>"
      demo_store demo_embed "''backend''" "[9 / 10, 1 / 10, 0, 5]" "''Job C''" 30]
    engine_ok_stable
  by (simp add: two_jobs_eq demo_defs method_defs)

text \<open>
  The claim as it was stated fails in both its parts. It takes the order of the
  timestamps for the order of insertion: job A is inserted while the clock reads 20 and
  job B after it, while the clock, set back in between, reads 10, and \<^verbatim>\<open>get_all\<close>
  returns job B before job A. And it takes the embedding read back for the sequence that
  was inserted: the component 7 / 64 + 1 / 2 ^ 40, a number that a float of Python holds
  exactly, is packed as the 4-byte float 7 / 64 and comes back from \<^verbatim>\<open>get_all\<close> as
  0.109375.
\<close>

theorem get_all_order_and_round_trip_counterexample:
  "vectors (fst (add_one stable_engine demo_store ''frontend engineer'' ''Job B'' 10
        (fst (add_one stable_engine demo_store ''backend engineer'' ''Job A'' 20 demo_world))))
     = Some \<lparr>dim = 3, rows =
         [\<lparr>embedding = [1, 0, 0], query = ''backend engineer'', content = ''Job A'', timestamp = 20\<rparr>,
          \<lparr>embedding = [0, 1, 0], query = ''frontend engineer'', content = ''Job B'', timestamp = 10\<rparr>]\<rparr>
   \<and> snd (get_all stable_engine demo_store
        (fst (add_one stable_engine demo_store ''frontend engineer'' ''Job B'' 10
          (fst (add_one stable_engine demo_store ''backend engineer'' ''Job A'' 20 demo_world)))))
     = Inr
         [\<lparr>row_embedding = [0, 1, 0], row_query = ''frontend engineer'', row_content = ''Job B'',
            row_timestamp = 10\<rparr>,
          \<lparr>row_embedding = [1, 0, 0], row_query = ''backend engineer'', row_content = ''Job A'',
            row_timestamp = 20\<rparr>]
   \<and> engine_ok rounding_engine
   \<and> vectors (fst (add_one rounding_engine
        (demo_store\<lparr>embed := Some (\<lambda>text. Inr [7 / 64 + 1 / 2 ^ 40, 0, 1, 5])\<rparr>)
        ''data engineer'' ''Job C'' 10 demo_world))
     = Some \<lparr>dim = 3, rows =
         [\<lparr>embedding = [7 / 64, 0, 1], query = ''data engineer'', content = ''Job C'',
            timestamp = 10\<rparr>]\<rparr>
   \<and> snd (get_all rounding_engine demo_store
        (fst (add_one rounding_engine
          (demo_store\<lparr>embed := Some (\<lambda>text. Inr [7 / 64 + 1 / 2 ^ 40, 0, 1, 5])\<rparr>)
          ''data engineer'' ''Job C'' 10 demo_world)))
     = Inr
         [\<lparr>row_embedding = [7 / 64, 0, 1], row_query = ''data engineer'',
            row_content = ''Job C'', row_timestamp = 10\<rparr>]
   \<and> [7 / 64, 0, 1] \<noteq> [7 / 64 + 1 / 2 ^ 40, 0, 1 :: real]"
  using engine_ok_rounding
  by (simp add: rounding_engine_def demo_defs method_defs round_def)

end
